theory Spec2Isabelle
  imports Main "HOL-Library.Word" "HOL-Library.Multiset"
begin

section \<open>Data model of the NRTM v4 client (package service, process.go)\<close>

text \<open>
  Versions are Go \<open>uint32\<close> values: \<open>+\<close> wraps around and \<open><\<close> is the unsigned
  order, which is what \<open>32 word\<close> gives.
\<close>

type_synonym u32 = "32 word"

text \<open>
  The error values of process.go (the \<open>var (...)\<close> block), together with \<open>io.EOF\<close>,
  \<open>persist.ErrNoEntity\<close>, the ad-hoc \<open>errors.New(msg)\<close> values and the errors that come
  back from the collaborating packages (encoding/json, rpsl, the repository, the
  fetcher).  A Go \<open>error\<close> is \<open>nil\<close> or one of these.
\<close>

datatype err =
    ErrNRTMVersionMismatch
  | ErrNRTMSourceMismatch
  | ErrNRTMSourceNameMismatch
  | ErrNRTMFileVersionMismatch
  | ErrNRTMFileVersionInconsistency
  | ErrNRTMNoDeltasInNotification
  | ErrNRTMNotificationDeltaSequenceBroken
  | ErrNRTMNotificationVersionDoesNotMatchDelta
  | ErrNRTMDuplicateDeltaVersion
  | ErrNextConsecutiveDeltaUnavaliable
  | ErrSourceAlreadyExists
  | EOF
  | ErrNoEntity
  | errors_New string
  | ErrJSON string
  | ErrRPSL string
  | ErrRepo string
  | ErrFetch string

type_synonym error = "err option"

text \<open>Ways in which the Go process stops instead of returning.\<close>

datatype crash = NilDereference | SliceBoundsOutOfRange | LogFatal

text \<open>
  \<open>persist.FileRefJSON\<close>, \<open>persist.NrtmFileJSON\<close> and the structs that embed it, and
  \<open>persist.NRTMSource\<close>, with the fields process.go and process_test.go use.  Field
  names that occur in more than one struct carry a suffix (\<open>_ref\<close>, \<open>_src\<close>).
\<close>

record FileRefJSON =
  Version_ref :: u32
  URL :: string
  Hash :: string

record NrtmFileJSON =
  NrtmVersion :: int
  Type :: string
  Source :: string
  SessionID :: string
  Version :: u32

record NotificationJSON = NrtmFileJSON +
  SnapshotRef :: FileRefJSON
  DeltaRefs :: "FileRefJSON list option"

record NRTMSource =
  ID :: int
  Source_src :: string
  SessionID_src :: string
  Version_src :: u32
  NotificationURL :: string
  Label :: string
  Created :: string

section \<open>validateDeltaHeader\<close>

definition validateDeltaHeader :: "NrtmFileJSON \<Rightarrow> NRTMSource \<Rightarrow> FileRefJSON \<Rightarrow> error" where
  "validateDeltaHeader file source deltaRef =
     (if NrtmVersion file \<noteq> 4 then Some ErrNRTMVersionMismatch
      else if SessionID file \<noteq> SessionID_src source then Some ErrNRTMSourceMismatch
      else if Source file \<noteq> Source_src source then Some ErrNRTMSourceNameMismatch
      else if Version file \<noteq> Version_ref deltaRef then Some ErrNRTMFileVersionMismatch
      else if Version file < Version_src source then Some ErrNRTMFileVersionInconsistency
      else None)"

section \<open>RPSLObjectList\<close>

text \<open>
  The buffer is the slice \<open>l.objects\<close>; the mutex only serialises the calls, so each
  method is a function from the buffer to its result and the new buffer.  \<open>size\<close> is a
  Go \<open>int\<close>: with a negative \<open>size\<close> the test \<open>len(l.objects) >= size\<close> holds and the
  slice expression \<open>l.objects[:size]\<close> panics.
\<close>

definition Add :: "'a \<Rightarrow> 'a list \<Rightarrow> 'a list" where
  "Add obj objects = objects @ [obj]"

definition GetBatch :: "int \<Rightarrow> 'a list \<Rightarrow> crash + ('a list \<times> 'a list)" where
  "GetBatch sz objects =
     (if int (length objects) \<ge> sz then
        (if sz < 0 then Inl SliceBoundsOutOfRange
         else Inr (take (nat sz) objects, drop (nat sz) objects))
      else Inr ([], objects))"

definition GetAll :: "'a list \<Rightarrow> 'a list \<times> 'a list" where
  "GetAll objects = (objects, [])"

section \<open>findUpdates\<close>

text \<open>
  Modelled from the spec: \<open>util.NewSet\<close> (package util is not in src) collects its
  arguments into a set, so that \<open>len(versionSet)\<close> is the number of different versions.
\<close>

definition NewSet :: "'a list \<Rightarrow> 'a set" where
  "NewSet xs = set xs"

text \<open>
  The loop \<open>for i := 0; i < len(versions)-1; i++\<close> of findUpdates: \<open>True\<close> when it
  returns from inside (some \<open>versions[i]+1 != versions[i+1]\<close>), \<open>False\<close> when it runs
  to its end.  The addition is the wrapping one of \<open>uint32\<close>.
\<close>

function sequenceBroken :: "nat \<Rightarrow> u32 list \<Rightarrow> bool" where
  "sequenceBroken i versions =
     (if int i < int (length versions) - 1 then
        (if versions ! i + 1 \<noteq> versions ! (i + 1) then True
         else sequenceBroken (i + 1) versions)
      else False)"
  by pat_completeness auto
termination
  by (relation "measure (\<lambda>(i, versions). length versions - i)") auto

text \<open>
  \<open>notification.DeltaRefs\<close> is a pointer to a slice (\<open>None\<close> is \<open>nil\<close>).  The result is
  Go's pair \<open>(deltaRefs, err)\<close>: \<open>Inl\<close> the error (with a \<open>nil\<close> slice), \<open>Inr\<close> the slice.
  \<open>sort.Slice\<close> with \<open>versions[i] < versions[j]\<close> orders the versions ascending.
\<close>

definition findUpdates :: "NotificationJSON \<Rightarrow> NRTMSource \<Rightarrow> err + FileRefJSON list" where
  "findUpdates notification source =
     (case DeltaRefs notification of
        None \<Rightarrow> Inl ErrNRTMNoDeltasInNotification
      | Some refs \<Rightarrow>
          if length refs = 0 then Inl ErrNRTMNoDeltasInNotification
          else
            let deltaRefs = filter (\<lambda>deltaRef. Version_ref deltaRef > Version_src source) refs;
                versions = map Version_ref refs;
                versionSet = NewSet versions
            in if card versionSet \<noteq> length versions then Inl ErrNRTMDuplicateDeltaVersion
               else
                 let versions = sort versions;
                     lo = versions ! 0;
                     hi = versions ! (length versions - 1)
                 in if hi \<noteq> Version notification
                    then Inl ErrNRTMNotificationVersionDoesNotMatchDelta
                    else if sequenceBroken 0 versions
                    then Inl ErrNRTMNotificationDeltaSequenceBroken
                    else if Version_src source + 1 < lo
                    then Inl ErrNextConsecutiveDeltaUnavaliable
                    else Inr deltaRefs)"

text \<open>
  Modelled from the spec: the type \<open>fileRefsByVersion\<close> (not in src) orders file
  references by ascending version, as TestFileRefSorter expects; \<open>sortFileRefs\<close> is
  \<open>sort.Sort(fileRefsByVersion(deltaRefs))\<close>.
\<close>

definition sortFileRefs :: "FileRefJSON list \<Rightarrow> FileRefJSON list" where
  "sortFileRefs deltaRefs = sort_key Version_ref deltaRefs"

section \<open>Collaborators\<close>

text \<open>
  Modelled from the spec: \<open>rpsl.Rpsl\<close> (package rpsl is not in src), the RPSLObject of
  the data model: class, primary key and the attributes in order.
\<close>

record Rpsl =
  rpsl_class :: string
  rpsl_primaryKey :: string
  rpsl_attributes :: "(string \<times> string) list"

text \<open>
  \<open>persist.DeltaFileJSON\<close> and \<open>persist.SnapshotFileJSON\<close> embed \<open>NrtmFileJSON\<close>
  (process.go reads \<open>header.NrtmFileJSON\<close>); \<open>persist.DeltaJSON\<close> holds its optional
  members behind pointers (process.go dereferences \<open>*delta.Object\<close>,
  \<open>*delta.ObjectClass\<close>, \<open>*delta.PrimaryKey\<close>), \<open>None\<close> being \<open>nil\<close>.
\<close>

record DeltaFileJSON =
  NrtmFileJSON_d :: NrtmFileJSON

record SnapshotFileJSON =
  NrtmFileJSON_s :: NrtmFileJSON

record SnapshotObjectJSON =
  Object_so :: string

record DeltaJSON =
  Action :: string
  Object :: "string option"
  ObjectClass :: "string option"
  PrimaryKey :: "string option"

text \<open>
  Modelled from the spec: the constants \<open>persist.DeltaAddModifyAction\<close> and
  \<open>persist.DeltaDeleteAction\<close> (not in src) are the two actions of a delta entry.
\<close>

definition DeltaAddModifyAction :: string where
  "DeltaAddModifyAction = ''add_modify''"

definition DeltaDeleteAction :: string where
  "DeltaDeleteAction = ''delete''"

definition rpslInsertBatchSize :: int where
  "rpslInsertBatchSize = 1000"

text \<open>
  What process.go calls and src does not hold is a parameter: \<open>'b\<close> is the content of
  one JSON-sequence record (\<open>[]byte\<close>), \<open>'r\<close> the state of the store behind
  \<open>persist.Repository\<close> and package db.  Each operation on the store takes the state and
  returns the new one.  A collaborator's error is an opaque message, which the model
  wraps (\<open>ErrJSON\<close>, \<open>ErrRPSL\<close>, \<open>ErrRepo\<close>, \<open>ErrFetch\<close>): it is never one of the error
  values process.go declares.  \<open>rpsl.ParseString\<close> returns a value and an error, as in
  Go.  A downloaded file is given by the calls the JSON-sequence reader makes for it:
  the bytes and the error of each.
\<close>

record ('b, 'r) Env =
  json_DeltaFileJSON :: "'b \<Rightarrow> string + DeltaFileJSON"
  json_DeltaJSON :: "'b \<Rightarrow> string + DeltaJSON"
  json_SnapshotFileJSON :: "'b \<Rightarrow> string + SnapshotFileJSON"
  json_SnapshotObjectJSON :: "'b \<Rightarrow> string + SnapshotObjectJSON"
  rpsl_ParseString :: "string \<Rightarrow> Rpsl \<times> string option"
  repo_SaveSource :: "NRTMSource \<Rightarrow> NotificationJSON \<Rightarrow> 'r \<Rightarrow> (NRTMSource \<times> string option) \<times> 'r"
  repo_AddModifyObject :: "NRTMSource \<Rightarrow> Rpsl \<Rightarrow> NrtmFileJSON \<Rightarrow> 'r \<Rightarrow> string option \<times> 'r"
  repo_DeleteObject :: "NRTMSource \<Rightarrow> string \<Rightarrow> string \<Rightarrow> NrtmFileJSON \<Rightarrow> 'r \<Rightarrow> string option \<times> 'r"
  repo_SaveSnapshotObjects :: "NRTMSource \<Rightarrow> Rpsl list \<Rightarrow> NrtmFileJSON \<Rightarrow> 'r \<Rightarrow> string option \<times> 'r"
  ds_getSourceByNameAndLabel :: "'r \<Rightarrow> string \<Rightarrow> string \<Rightarrow> NRTMSource option"
  db_Update :: "NRTMSource \<Rightarrow> 'r \<Rightarrow> string option \<times> 'r"
  fm_downloadNotificationFile :: "string \<Rightarrow> NotificationJSON \<times> string list"
  fm_fetchFileAndCheckHash :: "FileRefJSON \<Rightarrow> string \<Rightarrow> string + ('b \<times> error) list"

text \<open>
  Modelled from the spec: \<open>jsonseq.ReadRecords\<close> behind \<open>fileManager.readJSONSeqRecords\<close>
  (neither is in src).  The reader hands each record to the callback in stream order,
  the last call carrying \<open>io.EOF\<close>; a callback that returns an error stops the reader,
  which returns that error; a stream read to its end returns \<open>io.EOF\<close>.  \<open>'s\<close> is what
  the callback closes over, together with the store.
\<close>

fun readJSONSeqRecords ::
  "('b \<Rightarrow> error \<Rightarrow> 's \<Rightarrow> crash + (error \<times> 's)) \<Rightarrow> ('b \<times> error) list \<Rightarrow> 's \<Rightarrow> crash + (error \<times> 's)" where
  "readJSONSeqRecords fn [] st = Inr (Some EOF, st)"
| "readJSONSeqRecords fn ((bytes, err) # rest) st =
     (case fn bytes err st of
        Inl c \<Rightarrow> Inl c
      | Inr (Some e, st') \<Rightarrow> Inr (Some e, st')
      | Inr (None, st') \<Rightarrow> readJSONSeqRecords fn rest st')"

text \<open>
  Modelled from the spec: \<open>db.WithTransaction\<close> (package db is not in src) runs the
  function on the store and keeps its writes only when it returns no error.
\<close>

definition WithTransaction :: "('r \<Rightarrow> string option \<times> 'r) \<Rightarrow> 'r \<Rightarrow> string option \<times> 'r" where
  "WithTransaction f r = (case f r of (None, r') \<Rightarrow> (None, r') | (Some e, r') \<Rightarrow> (Some e, r))"

section \<open>applyDeltaFunc and syncDeltas\<close>

text \<open>
  The closure returned by applyDeltaFunc keeps \<open>header\<close> (\<open>nil\<close> until the first record
  has been accepted) and its own copy of \<open>source\<close>, whose version it sets.  One call of
  the closure takes the record, the reader's error, the closure's variables and the
  store, and returns the error with the new variables and store, or panics on a \<open>nil\<close>
  pointer.
\<close>

record delta_vars =
  header :: "DeltaFileJSON option"
  source_d :: NRTMSource

definition applyDeltaFunc ::
  "('b, 'r) Env \<Rightarrow> NotificationJSON \<Rightarrow> FileRefJSON \<Rightarrow>
     'b \<Rightarrow> error \<Rightarrow> delta_vars \<times> 'r \<Rightarrow> crash + (error \<times> (delta_vars \<times> 'r))" where
  "applyDeltaFunc env notification deltaRef bytes err st =
     (case st of (v, r) \<Rightarrow>
      if err = Some ErrNoEntity then Inr (err, (v, r))
      else if err = None \<or> err = Some EOF then
        (case header v of
           None \<Rightarrow>
             (case json_DeltaFileJSON env bytes of
                Inl m \<Rightarrow> Inr (Some (ErrJSON m), (v, r))
              | Inr deltaHeader \<Rightarrow>
                  (case validateDeltaHeader (NrtmFileJSON_d deltaHeader) (source_d v) deltaRef of
                     Some e \<Rightarrow> Inr (Some e, (v, r))
                   | None \<Rightarrow>
                       let v' = v\<lparr>header := Some deltaHeader,
                                  source_d := (source_d v)\<lparr>Version_src := Version_ref deltaRef\<rparr>\<rparr>
                       in (case repo_SaveSource env (source_d v') notification r of
                             ((_, m), r') \<Rightarrow> Inr (map_option ErrRepo m, (v', r')))))
         | Some hdr \<Rightarrow>
             (case json_DeltaJSON env bytes of
                Inl m \<Rightarrow> Inr (Some (ErrJSON m), (v, r))
              | Inr delta \<Rightarrow>
                  if Action delta = DeltaAddModifyAction then
                    (case Object delta of
                       None \<Rightarrow> Inl NilDereference
                     | Some obj \<Rightarrow>
                         (case rpsl_ParseString env obj of
                            (rpsl, Some m) \<Rightarrow> Inr (Some (ErrRPSL m), (v, r))
                          | (rpsl, None) \<Rightarrow>
                              (case repo_AddModifyObject env (source_d v) rpsl (NrtmFileJSON_d hdr) r of
                                 (Some m, r') \<Rightarrow> Inr (Some (ErrRepo m), (v, r'))
                               | (None, r') \<Rightarrow> Inr (None, (v, r')))))
                  else if Action delta = DeltaDeleteAction then
                    (case ObjectClass delta of
                       None \<Rightarrow> Inl NilDereference
                     | Some objectClass \<Rightarrow>
                         (case PrimaryKey delta of
                            None \<Rightarrow> Inl NilDereference
                          | Some primaryKey \<Rightarrow>
                              (case repo_DeleteObject env (source_d v) objectClass primaryKey
                                      (NrtmFileJSON_d hdr) r of
                                 (_, r') \<Rightarrow> Inr (None, (v, r')))))
                  else Inr (Some (errors_New (''no delta action available: '' @ Action delta)), (v, r))))
      else Inr (err, (v, r)))"

text \<open>
  The loop of syncDeltas over the sorted references.  Each file gets a fresh closure
  over syncDeltas' own \<open>source\<close>, which the closures do not change.
\<close>

fun syncDeltas_loop ::
  "('b, 'r) Env \<Rightarrow> string \<Rightarrow> NotificationJSON \<Rightarrow> NRTMSource \<Rightarrow> FileRefJSON list \<Rightarrow> 'r \<Rightarrow>
     crash + (error \<times> 'r)" where
  "syncDeltas_loop env path notification source [] r = Inr (None, r)"
| "syncDeltas_loop env path notification source (deltaRef # rest) r =
     (case fm_fetchFileAndCheckHash env deltaRef path of
        Inl m \<Rightarrow> Inr (Some (ErrFetch m), r)
      | Inr file \<Rightarrow>
          (case readJSONSeqRecords (applyDeltaFunc env notification deltaRef) file
                  (\<lparr>header = None, source_d = source\<rparr>, r) of
             Inl c \<Rightarrow> Inl c
           | Inr (err, (v, r')) \<Rightarrow>
               if err \<noteq> Some EOF then Inr (err, r')
               else syncDeltas_loop env path notification source rest r'))"

definition syncDeltas ::
  "('b, 'r) Env \<Rightarrow> string \<Rightarrow> NotificationJSON \<Rightarrow> NRTMSource \<Rightarrow> 'r \<Rightarrow> crash + (error \<times> 'r)" where
  "syncDeltas env path notification source r =
     (case findUpdates notification source of
        Inl e \<Rightarrow> Inr (Some e, r)
      | Inr deltaRefs \<Rightarrow> syncDeltas_loop env path notification source (sortFileRefs deltaRefs) r)"

section \<open>Update and ReplaceLabel\<close>

text \<open>\<open>path\<close> is \<open>p.config.NRTMFilePath\<close>.\<close>

definition Update ::
  "('b, 'r) Env \<Rightarrow> string \<Rightarrow> string \<Rightarrow> string \<Rightarrow> 'r \<Rightarrow> crash + (error \<times> 'r)" where
  "Update env path sourceName label r =
     (case ds_getSourceByNameAndLabel env r sourceName label of
        None \<Rightarrow> Inr (Some (errors_New ''no source found''), r)
      | Some source \<Rightarrow>
          (case fm_downloadNotificationFile env (NotificationURL source) of
             (notification, errs) \<Rightarrow>
               if length errs > 0
                 then Inr (Some (errors_New ''problem downloading notification file''), r)
               else if SessionID notification \<noteq> SessionID_src source
                 then Inr (Some (errors_New ''server has a new mirror session''), r)
               else if Version notification < Version_src source
                 then Inr (Some (errors_New ''server has old version''), r)
               else if Version notification = Version_src source
                 then Inr (None, r)
               else syncDeltas env path notification source r))"

text \<open>The result is Go's pair \<open>(*persist.NRTMSource, error)\<close> and the new store.\<close>

definition ReplaceLabel ::
  "('b, 'r) Env \<Rightarrow> string \<Rightarrow> string \<Rightarrow> string \<Rightarrow> 'r \<Rightarrow> (NRTMSource option \<times> error) \<times> 'r" where
  "ReplaceLabel env src fromLabel toLabel r =
     (case ds_getSourceByNameAndLabel env r src fromLabel of
        None \<Rightarrow> ((None, Some (errors_New ''cannot find source with given name and label'')), r)
      | Some target \<Rightarrow>
          (case ds_getSourceByNameAndLabel env r src toLabel of
             Some possDupe \<Rightarrow> ((None, Some ErrSourceAlreadyExists), r)
           | None \<Rightarrow>
               let target' = target\<lparr>Label := toLabel\<rparr>
               in (case WithTransaction (db_Update env target') r of
                     (m, r') \<Rightarrow> ((Some target', map_option ErrRepo m), r'))))"

section \<open>snapshotObjectInsertFunc\<close>

text \<open>
  bytesToRPSL: \<open>nil\<close> when the record is not JSON; otherwise a pointer to the value
  \<open>rpsl.ParseString\<close> returned, also when ParseString returned an error (the error is
  logged and execution falls through to \<open>return &rpsl\<close>).
\<close>

definition bytesToRPSL :: "('b, 'r) Env \<Rightarrow> 'b \<Rightarrow> Rpsl option" where
  "bytesToRPSL env bytes =
     (case json_SnapshotObjectJSON env bytes of
        Inl m \<Rightarrow> None
      | Inr so \<Rightarrow> (case rpsl_ParseString env (Object_so so) of (rpsl, perr) \<Rightarrow> Some rpsl))"

text \<open>
  The variables the closure of snapshotObjectInsertFunc shares with incrementCounters.
  The parser pool and the wait group only bound and join the goroutines; the model runs
  the goroutine of a record to its end before the reader's next call, which is one of
  the schedules of the program.
\<close>

record snapshot_vars =
  snapshotHeader :: "SnapshotFileJSON option"
  objectList :: "Rpsl list"
  successfulObjects :: int
  failedObjects :: int
  source_s :: NRTMSource

text \<open>
  incrementCounters.  \<open>snapshotHeader.NrtmFileJSON\<close> panics on a \<open>nil\<close> header;
  \<open>log.Fatalln\<close> ends the process.
\<close>

definition incrementCounters ::
  "('b, 'r) Env \<Rightarrow> Rpsl option \<Rightarrow> snapshot_vars \<times> 'r \<Rightarrow> crash + (snapshot_vars \<times> 'r)" where
  "incrementCounters env res st =
     (case st of (v, r) \<Rightarrow>
      let v1 = (case res of
                  Some obj \<Rightarrow> v\<lparr>objectList := Add obj (objectList v),
                                successfulObjects := successfulObjects v + 1\<rparr>
                | None \<Rightarrow> v\<lparr>failedObjects := failedObjects v + 1\<rparr>)
      in (case GetBatch rpslInsertBatchSize (objectList v1) of
            Inl c \<Rightarrow> Inl c
          | Inr (rpslObjects, rest) \<Rightarrow>
              let v2 = v1\<lparr>objectList := rest\<rparr>
              in if length rpslObjects > 0 then
                   (case snapshotHeader v2 of
                      None \<Rightarrow> Inl NilDereference
                    | Some hdr \<Rightarrow>
                        (case repo_SaveSnapshotObjects env (source_s v2) rpslObjects
                                (NrtmFileJSON_s hdr) r of
                           (Some m, r') \<Rightarrow> Inl LogFatal
                         | (None, r') \<Rightarrow> Inr (v2, r')))
                 else Inr (v2, r)))"

definition snapshotObjectInsertFunc ::
  "('b, 'r) Env \<Rightarrow> NotificationJSON \<Rightarrow>
     'b \<Rightarrow> error \<Rightarrow> snapshot_vars \<times> 'r \<Rightarrow> crash + (error \<times> (snapshot_vars \<times> 'r))" where
  "snapshotObjectInsertFunc env notification bytes err st =
     (case st of (v, r) \<Rightarrow>
      if err = Some ErrNoEntity then Inr (None, (v, r))
      else if err = Some EOF then
        (case incrementCounters env (bytesToRPSL env bytes) (v, r) of
           Inl c \<Rightarrow> Inl c
         | Inr (v1, r1) \<Rightarrow>
             (case GetAll (objectList v1) of
                (rpslObjects, rest) \<Rightarrow>
                  let v2 = v1\<lparr>objectList := rest\<rparr>
                  in (case snapshotHeader v2 of
                        None \<Rightarrow> Inl NilDereference
                      | Some hdr \<Rightarrow>
                          (case repo_SaveSnapshotObjects env (source_s v2) rpslObjects
                                  (NrtmFileJSON_s hdr) r1 of
                             (Some m, r2) \<Rightarrow> Inr (Some (ErrRepo m), (v2, r2))
                           | (None, r2) \<Rightarrow>
                               let v3 = v2\<lparr>source_s :=
                                          (source_s v2)\<lparr>Version_src := Version (NrtmFileJSON_s hdr)\<rparr>\<rparr>
                               in (case repo_SaveSource env (source_s v3) notification r2 of
                                     ((_, m), r3) \<Rightarrow> Inr (map_option ErrRepo m, (v3, r3)))))))
      else if err \<noteq> None then Inr (err, (v, r))
      else if successfulObjects v = 0 then
        (let v1 = v\<lparr>successfulObjects := successfulObjects v + 1\<rparr>
         in (case json_SnapshotFileJSON env bytes of
               Inl m \<Rightarrow> Inr (Some (ErrJSON m), (v1, r))
             | Inr sf \<Rightarrow>
                 if Version (NrtmFileJSON_s sf) \<noteq> Version_ref (SnapshotRef notification)
                   then Inr (Some ErrNRTMFileVersionMismatch, (v1, r))
                 else Inr (None, (v1\<lparr>snapshotHeader := Some sf\<rparr>, r))))
      else
        (case incrementCounters env (bytesToRPSL env bytes) (v, r) of
           Inl c \<Rightarrow> Inl c
         | Inr (v1, r1) \<Rightarrow> Inr (None, (v1, r1))))"

text \<open>The variables as snapshotObjectInsertFunc initialises them.\<close>

definition snapshot_init :: "NRTMSource \<Rightarrow> snapshot_vars" where
  "snapshot_init source =
     \<lparr>snapshotHeader = None, objectList = [], successfulObjects = 0, failedObjects = 0,
      source_s = source\<rparr>"

section \<open>An in-memory store and wire format\<close>

text \<open>
  Modelled from the spec: a store with the operations of the Repository capability
  (section 6.2), kept in memory: the saved sources and the current objects, keyed by
  class and primary key.  \<open>deleteObject\<close> of an object that is not stored reports an
  error.  It stands for \<open>persist.Repository\<close>, \<open>NrtmDataService\<close> and package db, none of
  which is in src, wherever a concrete store is needed.
\<close>

record mem_repo =
  mem_sources :: "NRTMSource list"
  mem_objects :: "((string \<times> string) \<times> Rpsl) list"

definition mem_upsert :: "NRTMSource \<Rightarrow> NRTMSource list \<Rightarrow> NRTMSource list" where
  "mem_upsert s xs =
     (if \<exists>x \<in> set xs. ID x = ID s then map (\<lambda>x. if ID x = ID s then s else x) xs
      else xs @ [s])"

definition mem_put :: "Rpsl \<Rightarrow> ((string \<times> string) \<times> Rpsl) list \<Rightarrow> ((string \<times> string) \<times> Rpsl) list" where
  "mem_put obj xs =
     ((rpsl_class obj, rpsl_primaryKey obj), obj) #
       filter (\<lambda>x. fst x \<noteq> (rpsl_class obj, rpsl_primaryKey obj)) xs"

text \<open>
  A record of a stream, already told apart by what it decodes to; \<open>WGarbage\<close> is not
  JSON.  The RPSL parser of the example accepts the texts of the form \<open>class:key\<close> it
  is given in \<open>mem_rpsl\<close> and rejects every other text, returning the zero object.
\<close>

datatype wire = WHeader NrtmFileJSON | WDelta DeltaJSON | WObject string | WGarbage

definition zero_Rpsl :: Rpsl where
  "zero_Rpsl = \<lparr>rpsl_class = [], rpsl_primaryKey = [], rpsl_attributes = []\<rparr>"

definition mem_rpsl :: "string \<Rightarrow> Rpsl \<times> string option" where
  "mem_rpsl text =
     (if text = ''route:192.0.2.0/24'' then
        (\<lparr>rpsl_class = ''route'', rpsl_primaryKey = ''192.0.2.0/24'',
          rpsl_attributes = [(''route'', ''192.0.2.0/24'')]\<rparr>, None)
      else if text = ''mntner:EXAMPLE-MNT'' then
        (\<lparr>rpsl_class = ''mntner'', rpsl_primaryKey = ''EXAMPLE-MNT'',
          rpsl_attributes = [(''mntner'', ''EXAMPLE-MNT'')]\<rparr>, None)
      else (zero_Rpsl, Some ''not an rpsl object''))"

definition mem_env ::
  "(string \<Rightarrow> NotificationJSON \<times> string list) \<Rightarrow>
   (FileRefJSON \<Rightarrow> string \<Rightarrow> string + (wire \<times> error) list) \<Rightarrow> (wire, mem_repo) Env" where
  "mem_env download fetch =
     \<lparr>json_DeltaFileJSON =
        (\<lambda>b. case b of WHeader h \<Rightarrow> Inr \<lparr>NrtmFileJSON_d = h\<rparr> | _ \<Rightarrow> Inl ''json: cannot unmarshal''),
      json_DeltaJSON =
        (\<lambda>b. case b of WDelta d \<Rightarrow> Inr d | _ \<Rightarrow> Inl ''json: cannot unmarshal''),
      json_SnapshotFileJSON =
        (\<lambda>b. case b of WHeader h \<Rightarrow> Inr \<lparr>NrtmFileJSON_s = h\<rparr> | _ \<Rightarrow> Inl ''json: cannot unmarshal''),
      json_SnapshotObjectJSON =
        (\<lambda>b. case b of WObject t \<Rightarrow> Inr \<lparr>Object_so = t\<rparr> | _ \<Rightarrow> Inl ''json: cannot unmarshal''),
      rpsl_ParseString = mem_rpsl,
      repo_SaveSource =
        (\<lambda>s n r. ((s, None), r\<lparr>mem_sources := mem_upsert s (mem_sources r)\<rparr>)),
      repo_AddModifyObject =
        (\<lambda>s obj h r. (None, r\<lparr>mem_objects := mem_put obj (mem_objects r)\<rparr>)),
      repo_DeleteObject =
        (\<lambda>s c k h r.
           if (c, k) \<in> fst ` set (mem_objects r)
           then (None, r\<lparr>mem_objects := filter (\<lambda>x. fst x \<noteq> (c, k)) (mem_objects r)\<rparr>)
           else (Some ''no such object'', r)),
      repo_SaveSnapshotObjects =
        (\<lambda>s objs h r. (None, r\<lparr>mem_objects := fold mem_put objs (mem_objects r)\<rparr>)),
      ds_getSourceByNameAndLabel =
        (\<lambda>r name label. find (\<lambda>s. Source_src s = name \<and> Label s = label) (mem_sources r)),
      db_Update =
        (\<lambda>s r. (None, r\<lparr>mem_sources := map (\<lambda>x. if ID x = ID s then s else x) (mem_sources r)\<rparr>)),
      fm_downloadNotificationFile = download,
      fm_fetchFileAndCheckHash = fetch\<rparr>"

section \<open>Example data\<close>

definition ex_ref :: "u32 \<Rightarrow> FileRefJSON" where
  "ex_ref v = \<lparr>Version_ref = v, URL = ''https://example.com/nrtm-delta'', Hash = ''00''\<rparr>"

definition ex_file :: "u32 \<Rightarrow> NrtmFileJSON" where
  "ex_file v =
     \<lparr>NrtmVersion = 4, Type = ''delta'', Source = ''EXAMPLE'',
      SessionID = ''ca128382-78d9-41d1-8927-1ecef15275be'', Version = v\<rparr>"

definition ex_notification :: "u32 \<Rightarrow> FileRefJSON list \<Rightarrow> NotificationJSON" where
  "ex_notification v refs =
     \<lparr>NrtmVersion = 4, Type = ''notification'', Source = ''EXAMPLE'',
      SessionID = ''ca128382-78d9-41d1-8927-1ecef15275be'', Version = v,
      SnapshotRef = ex_ref 3, DeltaRefs = Some refs\<rparr>"

definition ex_source :: "string \<Rightarrow> u32 \<Rightarrow> NRTMSource" where
  "ex_source label v =
     \<lparr>ID = 1, Source_src = ''EXAMPLE'',
      SessionID_src = ''ca128382-78d9-41d1-8927-1ecef15275be'', Version_src = v,
      NotificationURL = ''https://example.com/source1/notification.json'',
      Label = label, Created = ''2025-01-04T23:01:00Z''\<rparr>"

text \<open>
  The in-memory collaborators, with a fetcher that serves the notification \<open>n\<close> and
  has no file in its cache.
\<close>

definition ex_env :: "NotificationJSON \<Rightarrow> (wire, mem_repo) Env" where
  "ex_env n = mem_env (\<lambda>url. (n, [])) (\<lambda>ref path. Inl ''no such file'')"

definition ex_route :: Rpsl where
  "ex_route =
     \<lparr>rpsl_class = ''route'', rpsl_primaryKey = ''192.0.2.0/24'',
      rpsl_attributes = [(''route'', ''192.0.2.0/24'')]\<rparr>"


section \<open>Properties\<close>

subsection \<open>Sorted lists and the loop of findUpdates\<close>

lemma sequenceBroken_iff:
  "sequenceBroken i vs \<longleftrightarrow> (\<exists>j. i \<le> j \<and> Suc j < length vs \<and> vs ! j + 1 \<noteq> vs ! Suc j)"
proof (induction i vs rule: sequenceBroken.induct)
  case (1 i versions)
  show ?case
  proof (cases "Suc i < length versions")
    case False
    then show ?thesis by (subst sequenceBroken.simps) auto
  next
    case True
    show ?thesis
    proof (cases "versions ! i + 1 \<noteq> versions ! (i + 1)")
      case True
      with \<open>Suc i < length versions\<close> show ?thesis
        by (subst sequenceBroken.simps) auto
    next
      case False
      with \<open>Suc i < length versions\<close> "1.IH"
      have "sequenceBroken i versions \<longleftrightarrow>
        (\<exists>j. Suc i \<le> j \<and> Suc j < length versions \<and> versions ! j + 1 \<noteq> versions ! Suc j)"
        by (subst sequenceBroken.simps) auto
      also have "\<dots> \<longleftrightarrow> (\<exists>j. i \<le> j \<and> Suc j < length versions \<and> versions ! j + 1 \<noteq> versions ! Suc j)"
        using False by (metis Suc_eq_plus1 Suc_leD le_antisym not_less_eq_eq)
      finally show ?thesis .
    qed
  qed
qed

lemma sorted_nth0_Min:
  fixes xs :: "('a::linorder) list"
  assumes "sorted xs" "xs \<noteq> []"
  shows "xs ! 0 = Min (set xs)"
proof -
  from assms obtain y ys where xs: "xs = y # ys" by (cases xs) auto
  with assms have "\<forall>z\<in>set xs. y \<le> z" by auto
  then have "Min (set xs) = y"
    using xs by (intro Min_eqI) auto
  then show ?thesis using xs by simp
qed

lemma sorted_last_Max:
  fixes xs :: "('a::linorder) list"
  assumes "sorted xs" "xs \<noteq> []"
  shows "xs ! (length xs - 1) = Max (set xs)"
proof -
  have "\<forall>z\<in>set xs. z \<le> xs ! (length xs - 1)"
  proof
    fix z assume "z \<in> set xs"
    then obtain i where i: "i < length xs" "xs ! i = z" by (auto simp: in_set_conv_nth)
    then have "xs ! i \<le> xs ! (length xs - 1)"
      using assms by (intro sorted_nth_mono) auto
    with i show "z \<le> xs ! (length xs - 1)" by simp
  qed
  moreover have "xs ! (length xs - 1) \<in> set xs" using assms by simp
  ultimately have "Max (set xs) = xs ! (length xs - 1)"
    by (intro Max_eqI) auto
  then show ?thesis by simp
qed

lemma card_NewSet: "card (NewSet vs) \<noteq> length vs \<longleftrightarrow> \<not> distinct vs"
  unfolding NewSet_def using card_distinct distinct_card by blast

subsection \<open>The notification analyzer\<close>

text \<open>
  Claim C3.  For every notification and local source, findUpdates returns the error of
  the first failing check, in this order: no delta references
  (ErrNRTMNoDeltasInNotification); a delta version that occurs more than once
  (ErrNRTMDuplicateDeltaVersion); the highest delta version differs from the
  notification's version (ErrNRTMNotificationVersionDoesNotMatchDelta); two neighbours
  of the ascending versions are not consecutive (ErrNRTMNotificationDeltaSequenceBroken);
  the source's version plus one is below the lowest delta version
  (ErrNextConsecutiveDeltaUnavaliable).  When no check fails, in particular when the
  source's version plus one equals the lowest delta version, it succeeds.  All
  arithmetic is that of \<open>uint32\<close>.
\<close>

theorem findUpdates_first_failing_check:
  "findUpdates n s =
     (case DeltaRefs n of
        None \<Rightarrow> Inl ErrNRTMNoDeltasInNotification
      | Some refs \<Rightarrow>
          if refs = [] then Inl ErrNRTMNoDeltasInNotification
          else if \<not> distinct (map Version_ref refs) then Inl ErrNRTMDuplicateDeltaVersion
          else if Max (set (map Version_ref refs)) \<noteq> Version n
            then Inl ErrNRTMNotificationVersionDoesNotMatchDelta
          else if (\<exists>i. Suc i < length refs \<and>
                     sort (map Version_ref refs) ! i + 1 \<noteq> sort (map Version_ref refs) ! Suc i)
            then Inl ErrNRTMNotificationDeltaSequenceBroken
          else if Version_src s + 1 < Min (set (map Version_ref refs))
            then Inl ErrNextConsecutiveDeltaUnavaliable
          else Inr (filter (\<lambda>r. Version_src s < Version_ref r) refs))"
proof (cases "DeltaRefs n")
  case None
  then show ?thesis by (simp add: findUpdates_def)
next
  case (Some refs)
  show ?thesis
  proof (cases "refs = []")
    case True
    with Some show ?thesis by (simp add: findUpdates_def)
  next
    case False
    define vs where "vs = map Version_ref refs"
    have len: "length (sort vs) = length refs" by (simp add: vs_def)
    with False have ne: "sort vs \<noteq> []" by (metis length_0_conv)
    have lo: "sort vs ! 0 = Min (set vs)"
      using sorted_nth0_Min [of "sort vs"] ne by simp
    have hi: "sort vs ! (length (sort vs) - 1) = Max (set vs)"
      using sorted_last_Max [of "sort vs"] ne by simp
    have br: "sequenceBroken 0 (sort vs) \<longleftrightarrow>
        (\<exists>i. Suc i < length refs \<and> sort vs ! i + 1 \<noteq> sort vs ! Suc i)"
      unfolding sequenceBroken_iff len by simp
    have dup: "card (NewSet vs) \<noteq> length vs \<longleftrightarrow> \<not> distinct vs"
      by (rule card_NewSet)
    have "findUpdates n s =
      (if card (NewSet vs) \<noteq> length vs then Inl ErrNRTMDuplicateDeltaVersion
       else if sort vs ! (length (sort vs) - 1) \<noteq> Version n
         then Inl ErrNRTMNotificationVersionDoesNotMatchDelta
       else if sequenceBroken 0 (sort vs) then Inl ErrNRTMNotificationDeltaSequenceBroken
       else if Version_src s + 1 < sort vs ! 0 then Inl ErrNextConsecutiveDeltaUnavaliable
       else Inr (filter (\<lambda>r. Version_src s < Version_ref r) refs))"
      unfolding findUpdates_def Let_def Some vs_def using False by simp
    also have "\<dots> =
      (if \<not> distinct vs then Inl ErrNRTMDuplicateDeltaVersion
       else if Max (set vs) \<noteq> Version n
         then Inl ErrNRTMNotificationVersionDoesNotMatchDelta
       else if (\<exists>i. Suc i < length refs \<and> sort vs ! i + 1 \<noteq> sort vs ! Suc i)
         then Inl ErrNRTMNotificationDeltaSequenceBroken
       else if Version_src s + 1 < Min (set vs) then Inl ErrNextConsecutiveDeltaUnavaliable
       else Inr (filter (\<lambda>r. Version_src s < Version_ref r) refs))"
      unfolding dup hi br lo ..
    finally show ?thesis
      unfolding Some vs_def using False by simp
  qed
qed

text \<open>
  The comparison \<open>source.Version+1 < lo\<close> is made on \<open>uint32\<close>.  Below the largest
  version it is the comparison of the numbers; at the largest version the sum wraps to
  0, and findUpdates reports that the next delta is unavailable.
\<close>

lemma u32_succ_less:
  fixes v lo :: u32
  assumes "unat v < 2 ^ 32 - 1"
  shows "v + 1 < lo \<longleftrightarrow> unat v + 1 < unat lo"
proof -
  have "unat (v + 1) = unat v + 1"
    using assms by (simp add: unat_word_ariths)
  then show ?thesis by (simp add: word_less_nat_alt)
qed

lemma u32_succ_wraps: "(- 1 :: u32) + 1 = 0"
  by simp

lemma findUpdates_at_max_version:
  "findUpdates (ex_notification 5 [ex_ref 5]) (ex_source [] (- 1))
     = Inl ErrNextConsecutiveDeltaUnavaliable"
  by (simp add: findUpdates_def ex_notification_def ex_ref_def ex_source_def NewSet_def Let_def)









subsection \<open>Delta header validation\<close>

text \<open>
  Claim C8.  validateDeltaHeader succeeds if and only if the header's nrtmVersion is 4,
  its session id and source name are those of the source, its version is the version of
  the file reference, and its version is not below the source's version.  Otherwise it
  returns the error of the first condition violated, in that order:
  ErrNRTMVersionMismatch, ErrNRTMSourceMismatch, ErrNRTMSourceNameMismatch,
  ErrNRTMFileVersionMismatch, ErrNRTMFileVersionInconsistency.  A delta file whose header
  is rejected is not applied: reading it returns the error and leaves the closure's
  variables and the store as they were, whatever records follow.
\<close>

theorem validateDeltaHeader_iff:
  "(validateDeltaHeader file source deltaRef = None \<longleftrightarrow>
      NrtmVersion file = 4 \<and> SessionID file = SessionID_src source \<and>
      Source file = Source_src source \<and> Version file = Version_ref deltaRef \<and>
      Version file \<ge> Version_src source)
   \<and> (NrtmVersion file \<noteq> 4 \<longrightarrow>
        validateDeltaHeader file source deltaRef = Some ErrNRTMVersionMismatch)
   \<and> (NrtmVersion file = 4 \<and> SessionID file \<noteq> SessionID_src source \<longrightarrow>
        validateDeltaHeader file source deltaRef = Some ErrNRTMSourceMismatch)
   \<and> (NrtmVersion file = 4 \<and> SessionID file = SessionID_src source \<and>
        Source file \<noteq> Source_src source \<longrightarrow>
        validateDeltaHeader file source deltaRef = Some ErrNRTMSourceNameMismatch)
   \<and> (NrtmVersion file = 4 \<and> SessionID file = SessionID_src source \<and>
        Source file = Source_src source \<and> Version file \<noteq> Version_ref deltaRef \<longrightarrow>
        validateDeltaHeader file source deltaRef = Some ErrNRTMFileVersionMismatch)
   \<and> (NrtmVersion file = 4 \<and> SessionID file = SessionID_src source \<and>
        Source file = Source_src source \<and> Version file = Version_ref deltaRef \<and>
        Version file < Version_src source \<longrightarrow>
        validateDeltaHeader file source deltaRef = Some ErrNRTMFileVersionInconsistency)
   \<and> (json_DeltaFileJSON env bytes = Inr deltaHeader \<and> file = NrtmFileJSON_d deltaHeader \<and>
        validateDeltaHeader file source deltaRef = Some e \<and> (err = None \<or> err = Some EOF) \<longrightarrow>
        readJSONSeqRecords (applyDeltaFunc env notification deltaRef) ((bytes, err) # rest)
            (\<lparr>header = None, source_d = source\<rparr>, r)
          = Inr (Some e, (\<lparr>header = None, source_d = source\<rparr>, r)))"
  by (auto simp: validateDeltaHeader_def applyDeltaFunc_def)

theorem validateDeltaHeader_iff_witness:
  "validateDeltaHeader (ex_file 6) (ex_source [] 5) (ex_ref 6) = None
   \<and> validateDeltaHeader ((ex_file 6)\<lparr>NrtmVersion := 3\<rparr>) (ex_source [] 5) (ex_ref 6)
       = Some ErrNRTMVersionMismatch
   \<and> validateDeltaHeader ((ex_file 6)\<lparr>SessionID := ''other''\<rparr>) (ex_source [] 5) (ex_ref 6)
       = Some ErrNRTMSourceMismatch
   \<and> validateDeltaHeader ((ex_file 6)\<lparr>Source := ''OTHER''\<rparr>) (ex_source [] 5) (ex_ref 6)
       = Some ErrNRTMSourceNameMismatch
   \<and> validateDeltaHeader (ex_file 7) (ex_source [] 5) (ex_ref 6)
       = Some ErrNRTMFileVersionMismatch
   \<and> validateDeltaHeader (ex_file 4) (ex_source [] 5) (ex_ref 4)
       = Some ErrNRTMFileVersionInconsistency
   \<and> readJSONSeqRecords
         (applyDeltaFunc (mem_env (\<lambda>u. (ex_notification 6 [ex_ref 6], [])) (\<lambda>f p. Inr []))
            (ex_notification 6 [ex_ref 6]) (ex_ref 6))
         [(WHeader (ex_file 7), None),
          (WDelta \<lparr>Action = ''delete'', Object = None, ObjectClass = Some ''route'',
                   PrimaryKey = Some ''192.0.2.0/24''\<rparr>, Some EOF)]
         (\<lparr>header = None, source_d = ex_source [] 5\<rparr>, \<lparr>mem_sources = [], mem_objects = []\<rparr>)
       = Inr (Some ErrNRTMFileVersionMismatch,
              (\<lparr>header = None, source_d = ex_source [] 5\<rparr>, \<lparr>mem_sources = [], mem_objects = []\<rparr>))"
proof -
  let ?env = "mem_env (\<lambda>u. (ex_notification 6 [ex_ref 6], [])) (\<lambda>f p. Inr [])"
  have a: "validateDeltaHeader (ex_file 6) (ex_source [] 5) (ex_ref 6) = None"
    by (rule validateDeltaHeader_iff [THEN conjunct1, THEN iffD2])
       (simp add: ex_file_def ex_source_def ex_ref_def)
  have b: "validateDeltaHeader ((ex_file 6)\<lparr>NrtmVersion := 3\<rparr>) (ex_source [] 5) (ex_ref 6)
       = Some ErrNRTMVersionMismatch"
    by (rule validateDeltaHeader_iff [THEN conjunct2, THEN conjunct1, THEN mp])
       (simp add: ex_file_def ex_source_def ex_ref_def)
  have c: "validateDeltaHeader ((ex_file 6)\<lparr>SessionID := ''other''\<rparr>) (ex_source [] 5) (ex_ref 6)
       = Some ErrNRTMSourceMismatch"
    by (rule validateDeltaHeader_iff [THEN conjunct2, THEN conjunct2, THEN conjunct1, THEN mp])
       (simp add: ex_file_def ex_source_def ex_ref_def)
  have d: "validateDeltaHeader ((ex_file 6)\<lparr>Source := ''OTHER''\<rparr>) (ex_source [] 5) (ex_ref 6)
       = Some ErrNRTMSourceNameMismatch"
    by (rule validateDeltaHeader_iff [THEN conjunct2, THEN conjunct2, THEN conjunct2,
          THEN conjunct1, THEN mp])
       (simp add: ex_file_def ex_source_def ex_ref_def)
  have e: "validateDeltaHeader (ex_file 7) (ex_source [] 5) (ex_ref 6)
       = Some ErrNRTMFileVersionMismatch"
    by (rule validateDeltaHeader_iff [THEN conjunct2, THEN conjunct2, THEN conjunct2,
          THEN conjunct2, THEN conjunct1, THEN mp])
       (simp add: ex_file_def ex_source_def ex_ref_def)
  have f: "validateDeltaHeader (ex_file 4) (ex_source [] 5) (ex_ref 4)
       = Some ErrNRTMFileVersionInconsistency"
    by (rule validateDeltaHeader_iff [THEN conjunct2, THEN conjunct2, THEN conjunct2,
          THEN conjunct2, THEN conjunct2, THEN conjunct1, THEN mp])
       (simp add: ex_file_def ex_source_def ex_ref_def)
  have j: "json_DeltaFileJSON ?env (WHeader (ex_file 7)) = Inr \<lparr>NrtmFileJSON_d = ex_file 7\<rparr>"
    by (simp add: mem_env_def)
  have g: "readJSONSeqRecords
         (applyDeltaFunc ?env (ex_notification 6 [ex_ref 6]) (ex_ref 6))
         [(WHeader (ex_file 7), None),
          (WDelta \<lparr>Action = ''delete'', Object = None, ObjectClass = Some ''route'',
                   PrimaryKey = Some ''192.0.2.0/24''\<rparr>, Some EOF)]
         (\<lparr>header = None, source_d = ex_source [] 5\<rparr>, \<lparr>mem_sources = [], mem_objects = []\<rparr>)
       = Inr (Some ErrNRTMFileVersionMismatch,
              (\<lparr>header = None, source_d = ex_source [] 5\<rparr>, \<lparr>mem_sources = [], mem_objects = []\<rparr>))"
    by (rule validateDeltaHeader_iff [of "ex_file 7" _ _ _ _
          "\<lparr>NrtmFileJSON_d = ex_file 7\<rparr>",
          THEN conjunct2, THEN conjunct2, THEN conjunct2,
          THEN conjunct2, THEN conjunct2, THEN conjunct2, THEN mp])
       (simp add: e j)
  from a b c d e f g show ?thesis by blast
qed

subsection \<open>The batch buffer\<close>

lemma GetBatch_negative_size: "GetBatch (- 1) objects = Inl SliceBoundsOutOfRange"
  by (simp add: GetBatch_def)

text \<open>
  Claim C10.  For every buffer and every batch size \<open>n\<close>: with fewer than \<open>n\<close> objects
  buffered, GetBatch returns the empty slice and leaves the buffer as it is; with at
  least \<open>n\<close>, it returns the first \<open>n\<close> objects in the order in which Add appended them
  and removes exactly those from the buffer.  GetAll returns all buffered objects and
  leaves the buffer empty.  (Batch sizes are counts; a negative \<open>int\<close> makes the slice
  expression panic.)
\<close>

theorem RPSLObjectList_batches:
  "GetBatch (int n) objects =
     Inr (if length objects < n then ([], objects) else (take n objects, drop n objects))
   \<and> GetAll objects = (objects, [])
   \<and> fold Add xs objects = objects @ xs"
proof -
  have "fold Add xs objects = objects @ xs"
    by (induction xs arbitrary: objects) (simp_all add: Add_def)
  then show ?thesis by (simp add: GetBatch_def GetAll_def)
qed

subsection \<open>Applying one delta file\<close>

lemma validateDeltaHeader_not_EOF: "validateDeltaHeader f s d \<noteq> Some EOF"
  by (simp add: validateDeltaHeader_def)

lemma applyDeltaFunc_not_EOF:
  assumes "applyDeltaFunc env notification deltaRef bytes err st = Inr (Some e, st')"
  shows "e \<noteq> EOF"
  using assms validateDeltaHeader_not_EOF
  by (auto simp: applyDeltaFunc_def split: prod.splits if_splits option.splits sum.splits)

lemma readJSONSeqRecords_append:
  assumes "readJSONSeqRecords f pre st = Inr (Some EOF, st')"
      and "\<And>b err s e s'. f b err s = Inr (Some e, s') \<Longrightarrow> e \<noteq> EOF"
  shows "readJSONSeqRecords f (pre @ rest) st = readJSONSeqRecords f rest st'"
  using assms(1)
proof (induction pre arbitrary: st)
  case Nil
  then show ?case by simp
next
  case (Cons ev pre)
  obtain b err where ev: "ev = (b, err)" by (cases ev)
  show ?case
  proof (cases "f b err st")
    case (Inl c)
    with Cons.prems ev show ?thesis by simp
  next
    case (Inr p)
    obtain e s1 where p: "p = (e, s1)" by (cases p)
    show ?thesis
    proof (cases e)
      case None
      with Cons ev Inr p show ?thesis by simp
    next
      case (Some x)
      with Cons.prems ev Inr p have "x = EOF" by simp
      moreover from Inr p Some have "x \<noteq> EOF" using assms(2) by blast
      ultimately show ?thesis by simp
    qed
  qed
qed


text \<open>
  Claim C1, as stated, fails: a delta file is not applied as one transaction.  Here the
  header of delta 6 is accepted, one object is added, and the third record has an
  unknown action: reading stops with the error, and the store keeps version 6 for the
  source (it held version 5 before) and keeps the added object.
\<close>

theorem delta_not_atomic_counterexample:
  "readJSONSeqRecords
     (applyDeltaFunc (ex_env (ex_notification 6 [ex_ref 6])) (ex_notification 6 [ex_ref 6]) (ex_ref 6))
     [(WHeader (ex_file 6), None),
      (WDelta \<lparr>Action = ''add_modify'', Object = Some ''route:192.0.2.0/24'',
               ObjectClass = None, PrimaryKey = None\<rparr>, None),
      (WDelta \<lparr>Action = ''purge'', Object = None, ObjectClass = None, PrimaryKey = None\<rparr>,
       Some EOF)]
     (\<lparr>header = None, source_d = ex_source [] 5\<rparr>,
      \<lparr>mem_sources = [ex_source [] 5], mem_objects = []\<rparr>)
   = Inr (Some (errors_New ''no delta action available: purge''),
          (\<lparr>header = Some \<lparr>NrtmFileJSON_d = ex_file 6\<rparr>, source_d = ex_source [] 6\<rparr>,
           \<lparr>mem_sources = [ex_source [] 6],
            mem_objects = [((''route'', ''192.0.2.0/24''), ex_route)]\<rparr>))
   \<and> Version_src (ex_source [] 5) = 5 \<and> Version_src (ex_source [] 6) = 6"
  by (simp add: applyDeltaFunc_def validateDeltaHeader_def ex_env_def mem_env_def
      ex_notification_def ex_ref_def ex_file_def ex_source_def ex_route_def mem_upsert_def
      mem_put_def mem_rpsl_def DeltaAddModifyAction_def DeltaDeleteAction_def)

text \<open>
  Claim C1, amended.  A delta file is applied record by record, each repository call
  taking effect at once.  When the header is accepted, the source with its version set
  to the version of the file reference is saved through \<open>SaveSource\<close> before any entry
  is applied.  If then, after entries that were applied without error, an entry fails (it
  is not JSON, its action is unknown, its RPSL text does not parse, or
  \<open>AddModifyObject\<close> returns an error), reading stops with that error, no later record
  is looked at, and the store is the one reached by the save of the header and the
  entries applied so far: nothing is undone.
\<close>

theorem applyDelta_keeps_partial_writes:
  assumes hdr: "json_DeltaFileJSON env hb = Inr h"
      and valid: "validateDeltaHeader (NrtmFileJSON_d h) source deltaRef = None"
      and v1: "v1 = \<lparr>header = Some h, source_d = source\<lparr>Version_src := Version_ref deltaRef\<rparr>\<rparr>"
      and save: "repo_SaveSource env (source_d v1) notification r = ((s', None), r1)"
      and pre: "readJSONSeqRecords (applyDeltaFunc env notification deltaRef) pre (v1, r1)
                  = Inr (Some EOF, (v1, r2))"
      and bad: "(\<exists>m. json_DeltaJSON env bad = Inl m \<and> e = ErrJSON m \<and> r3 = r2)
              \<or> (\<exists>d. json_DeltaJSON env bad = Inr d \<and> Action d \<noteq> DeltaAddModifyAction
                     \<and> Action d \<noteq> DeltaDeleteAction
                     \<and> e = errors_New (''no delta action available: '' @ Action d) \<and> r3 = r2)
              \<or> (\<exists>d obj rpsl m. json_DeltaJSON env bad = Inr d
                     \<and> Action d = DeltaAddModifyAction \<and> Object d = Some obj
                     \<and> rpsl_ParseString env obj = (rpsl, Some m) \<and> e = ErrRPSL m \<and> r3 = r2)
              \<or> (\<exists>d obj rpsl m. json_DeltaJSON env bad = Inr d
                     \<and> Action d = DeltaAddModifyAction \<and> Object d = Some obj
                     \<and> rpsl_ParseString env obj = (rpsl, None)
                     \<and> repo_AddModifyObject env (source_d v1) rpsl (NrtmFileJSON_d h) r2 = (Some m, r3)
                     \<and> e = ErrRepo m)"
  shows "readJSONSeqRecords (applyDeltaFunc env notification deltaRef)
           ((hb, None) # pre @ (bad, None) # rest) (\<lparr>header = None, source_d = source\<rparr>, r)
         = Inr (Some e, (v1, r3))"
proof -
  let ?f = "applyDeltaFunc env notification deltaRef"
  have first: "?f hb None (\<lparr>header = None, source_d = source\<rparr>, r) = Inr (None, (v1, r1))"
    using hdr valid save by (simp add: applyDeltaFunc_def v1)
  have last: "?f bad None (v1, r2) = Inr (Some e, (v1, r3))"
    using bad by (auto simp: applyDeltaFunc_def v1)
  have "readJSONSeqRecords ?f (pre @ (bad, None) # rest) (v1, r1)
          = readJSONSeqRecords ?f ((bad, None) # rest) (v1, r2)"
    using pre applyDeltaFunc_not_EOF by (rule readJSONSeqRecords_append)
  with first last show ?thesis by simp
qed

theorem applyDelta_keeps_partial_writes_witness:
  "json_DeltaFileJSON (ex_env (ex_notification 6 [ex_ref 6])) (WHeader (ex_file 6))
     = Inr \<lparr>NrtmFileJSON_d = ex_file 6\<rparr>
   \<and> validateDeltaHeader (ex_file 6) (ex_source [] 5) (ex_ref 6) = None
   \<and> json_DeltaJSON (ex_env (ex_notification 6 [ex_ref 6]))
        (WDelta \<lparr>Action = ''purge'', Object = None, ObjectClass = None, PrimaryKey = None\<rparr>)
     = Inr \<lparr>Action = ''purge'', Object = None, ObjectClass = None, PrimaryKey = None\<rparr>
   \<and> readJSONSeqRecords
       (applyDeltaFunc (ex_env (ex_notification 6 [ex_ref 6])) (ex_notification 6 [ex_ref 6]) (ex_ref 6))
       ((WHeader (ex_file 6), None) #
        [(WDelta \<lparr>Action = ''add_modify'', Object = Some ''route:192.0.2.0/24'',
                  ObjectClass = None, PrimaryKey = None\<rparr>, None)] @
        (WDelta \<lparr>Action = ''purge'', Object = None, ObjectClass = None, PrimaryKey = None\<rparr>, None) #
        [(WDelta \<lparr>Action = ''delete'', Object = None, ObjectClass = Some ''route'',
                  PrimaryKey = Some ''192.0.2.0/24''\<rparr>, Some EOF)])
       (\<lparr>header = None, source_d = ex_source [] 5\<rparr>,
        \<lparr>mem_sources = [ex_source [] 5], mem_objects = []\<rparr>)
     = Inr (Some (errors_New ''no delta action available: purge''),
            (\<lparr>header = Some \<lparr>NrtmFileJSON_d = ex_file 6\<rparr>, source_d = ex_source [] 6\<rparr>,
             \<lparr>mem_sources = [ex_source [] 6],
              mem_objects = [((''route'', ''192.0.2.0/24''), ex_route)]\<rparr>))"
proof -
  let ?n = "ex_notification 6 [ex_ref 6]"
  let ?env = "ex_env ?n"
  let ?h = "\<lparr>NrtmFileJSON_d = ex_file 6\<rparr>"
  let ?v1 = "\<lparr>header = Some ?h, source_d = ex_source [] 6\<rparr>"
  let ?r1 = "\<lparr>mem_sources = [ex_source [] 6], mem_objects = []\<rparr>"
  let ?r2 = "\<lparr>mem_sources = [ex_source [] 6],
             mem_objects = [((''route'', ''192.0.2.0/24''), ex_route)]\<rparr>"
  let ?bad = "\<lparr>Action = ''purge'', Object = None, ObjectClass = None, PrimaryKey = None\<rparr>"
  have hdr: "json_DeltaFileJSON ?env (WHeader (ex_file 6)) = Inr ?h"
    by (simp add: ex_env_def mem_env_def)
  have valid: "validateDeltaHeader (NrtmFileJSON_d ?h) (ex_source [] 5) (ex_ref 6) = None"
    by (simp add: validateDeltaHeader_def ex_file_def ex_source_def ex_ref_def)
  have v1: "?v1 = \<lparr>header = Some ?h,
                     source_d = (ex_source [] 5)\<lparr>Version_src := Version_ref (ex_ref 6)\<rparr>\<rparr>"
    by (simp add: ex_source_def ex_ref_def)
  have save: "repo_SaveSource ?env (source_d ?v1) ?n
                \<lparr>mem_sources = [ex_source [] 5], mem_objects = []\<rparr>
              = ((ex_source [] 6, None), ?r1)"
    by (simp add: ex_env_def mem_env_def mem_upsert_def ex_source_def)
  have pre: "readJSONSeqRecords (applyDeltaFunc ?env ?n (ex_ref 6))
               [(WDelta \<lparr>Action = ''add_modify'', Object = Some ''route:192.0.2.0/24'',
                         ObjectClass = None, PrimaryKey = None\<rparr>, None)] (?v1, ?r1)
             = Inr (Some EOF, (?v1, ?r2))"
    by (simp add: applyDeltaFunc_def ex_env_def mem_env_def mem_rpsl_def mem_put_def ex_route_def
        DeltaAddModifyAction_def)
  have j: "json_DeltaJSON ?env (WDelta ?bad) = Inr ?bad"
    by (simp add: ex_env_def mem_env_def)
  have bad: "(\<exists>m. json_DeltaJSON ?env (WDelta ?bad) = Inl m
                \<and> errors_New ''no delta action available: purge'' = ErrJSON m \<and> ?r2 = ?r2)
        \<or> (\<exists>d. json_DeltaJSON ?env (WDelta ?bad) = Inr d \<and> Action d \<noteq> DeltaAddModifyAction
               \<and> Action d \<noteq> DeltaDeleteAction
               \<and> errors_New ''no delta action available: purge''
                   = errors_New (''no delta action available: '' @ Action d) \<and> ?r2 = ?r2)
        \<or> (\<exists>d obj rpsl m. json_DeltaJSON ?env (WDelta ?bad) = Inr d
               \<and> Action d = DeltaAddModifyAction \<and> Object d = Some obj
               \<and> rpsl_ParseString ?env obj = (rpsl, Some m)
               \<and> errors_New ''no delta action available: purge'' = ErrRPSL m \<and> ?r2 = ?r2)
        \<or> (\<exists>d obj rpsl m. json_DeltaJSON ?env (WDelta ?bad) = Inr d
               \<and> Action d = DeltaAddModifyAction \<and> Object d = Some obj
               \<and> rpsl_ParseString ?env obj = (rpsl, None)
               \<and> repo_AddModifyObject ?env (source_d ?v1) rpsl (NrtmFileJSON_d ?h) ?r2 = (Some m, ?r2)
               \<and> errors_New ''no delta action available: purge'' = ErrRepo m)"
    using j by (simp add: DeltaAddModifyAction_def DeltaDeleteAction_def)
  have "readJSONSeqRecords (applyDeltaFunc ?env ?n (ex_ref 6))
       ((WHeader (ex_file 6), None) #
        [(WDelta \<lparr>Action = ''add_modify'', Object = Some ''route:192.0.2.0/24'',
                  ObjectClass = None, PrimaryKey = None\<rparr>, None)] @
        (WDelta ?bad, None) #
        [(WDelta \<lparr>Action = ''delete'', Object = None, ObjectClass = Some ''route'',
                  PrimaryKey = Some ''192.0.2.0/24''\<rparr>, Some EOF)])
       (\<lparr>header = None, source_d = ex_source [] 5\<rparr>,
        \<lparr>mem_sources = [ex_source [] 5], mem_objects = []\<rparr>)
     = Inr (Some (errors_New ''no delta action available: purge''), (?v1, ?r2))"
    by (rule applyDelta_keeps_partial_writes [OF hdr valid v1 save pre bad])
  with hdr valid j show ?thesis by simp
qed

text \<open>
  A delete entry: whatever \<open>DeleteObject\<close> returns, the closure returns \<open>nil\<close>.
\<close>

lemma applyDeltaFunc_delete_returns_nil:
  assumes "header v = Some hdr" "json_DeltaJSON env bytes = Inr delta"
    "Action delta = DeltaDeleteAction" "ObjectClass delta = Some c" "PrimaryKey delta = Some k"
    "err = None \<or> err = Some EOF"
  shows "applyDeltaFunc env notification deltaRef bytes err (v, r)
     = Inr (None, (v, snd (repo_DeleteObject env (source_d v) c k (NrtmFileJSON_d hdr) r)))"
  using assms
  by (auto simp: applyDeltaFunc_def DeltaDeleteAction_def DeltaAddModifyAction_def
      split: prod.splits)

text \<open>
  Claim C6 does not hold of applyDeltaFunc: the result of \<open>repo.DeleteObject\<close> is
  dropped.  Here the store reports an error for the delete entry (the object is not
  stored), and the closure returns \<open>nil\<close>, so that the reader goes on with the next
  record.
\<close>

theorem delete_error_discarded:
  "repo_DeleteObject (ex_env (ex_notification 6 [ex_ref 6])) (ex_source [] 6)
       ''route'' ''192.0.2.0/24'' (ex_file 6) \<lparr>mem_sources = [ex_source [] 6], mem_objects = []\<rparr>
     = (Some ''no such object'', \<lparr>mem_sources = [ex_source [] 6], mem_objects = []\<rparr>)
   \<and> applyDeltaFunc (ex_env (ex_notification 6 [ex_ref 6])) (ex_notification 6 [ex_ref 6])
       (ex_ref 6)
       (WDelta \<lparr>Action = ''delete'', Object = None, ObjectClass = Some ''route'',
                PrimaryKey = Some ''192.0.2.0/24''\<rparr>) None
       (\<lparr>header = Some \<lparr>NrtmFileJSON_d = ex_file 6\<rparr>, source_d = ex_source [] 6\<rparr>,
        \<lparr>mem_sources = [ex_source [] 6], mem_objects = []\<rparr>)
     = Inr (None,
            (\<lparr>header = Some \<lparr>NrtmFileJSON_d = ex_file 6\<rparr>, source_d = ex_source [] 6\<rparr>,
             \<lparr>mem_sources = [ex_source [] 6], mem_objects = []\<rparr>))"
  by (simp add: applyDeltaFunc_def ex_env_def mem_env_def DeltaAddModifyAction_def
      DeltaDeleteAction_def)

subsection \<open>Ingesting a snapshot\<close>

text \<open>
  The first record is accepted as soon as it is JSON and its version is that of the
  snapshot reference; a record that is JSON is added to the buffer and counted as a
  success also when its RPSL text does not parse.
\<close>

lemma snapshot_header_step:
  assumes "successfulObjects v = 0" "json_SnapshotFileJSON env bytes = Inr sf"
    "Version (NrtmFileJSON_s sf) = Version_ref (SnapshotRef notification)"
  shows "snapshotObjectInsertFunc env notification bytes None (v, r)
     = Inr (None, (v\<lparr>successfulObjects := 1, snapshotHeader := Some sf\<rparr>, r))"
  using assms by (simp add: snapshotObjectInsertFunc_def)

lemma bytesToRPSL_ignores_parse_error:
  "json_SnapshotObjectJSON env bytes = Inr so \<Longrightarrow>
   bytesToRPSL env bytes = Some (fst (rpsl_ParseString env (Object_so so)))"
  by (simp add: bytesToRPSL_def split: prod.splits)

lemma snapshot_parse_failure_step:
  assumes "successfulObjects v \<noteq> 0" "json_SnapshotObjectJSON env bytes = Inr so"
    "rpsl_ParseString env (Object_so so) = (obj, Some m)"
    "int (length (objectList v)) + 1 < rpslInsertBatchSize"
  shows "snapshotObjectInsertFunc env notification bytes None (v, r)
     = Inr (None, (v\<lparr>objectList := objectList v @ [obj],
                      successfulObjects := successfulObjects v + 1\<rparr>, r))"
  using assms
  by (simp add: snapshotObjectInsertFunc_def incrementCounters_def bytesToRPSL_def
      GetBatch_def Add_def)

text \<open>
  Claim C2 does not hold of snapshotObjectInsertFunc: of the snapshot header only the
  version is compared.  Here the first record has nrtmVersion 3 and a source name and a
  session id that are not the source's, and its version is the one of the snapshot
  reference: no error is returned, the record after it is ingested, and the source is
  saved at the header's version.
\<close>

theorem snapshot_header_fields_unchecked:
  "readJSONSeqRecords
     (snapshotObjectInsertFunc (ex_env (ex_notification 3 [])) (ex_notification 3 []))
     [(WHeader \<lparr>NrtmVersion = 3, Type = ''snapshot'', Source = ''OTHER'',
                SessionID = ''another-session'', Version = 3\<rparr>, None),
      (WObject ''route:192.0.2.0/24'', Some EOF)]
     (snapshot_init (ex_source [] 0), \<lparr>mem_sources = [ex_source [] 0], mem_objects = []\<rparr>)
   = Inr (Some EOF,
          (\<lparr>snapshotHeader = Some \<lparr>NrtmFileJSON_s =
               \<lparr>NrtmVersion = 3, Type = ''snapshot'', Source = ''OTHER'',
                SessionID = ''another-session'', Version = 3\<rparr>\<rparr>,
            objectList = [], successfulObjects = 2, failedObjects = 0,
            source_s = ex_source [] 3\<rparr>,
           \<lparr>mem_sources = [ex_source [] 3],
            mem_objects = [((''route'', ''192.0.2.0/24''), ex_route)]\<rparr>))
   \<and> NrtmVersion (ex_notification 3 []) = 4
   \<and> Source_src (ex_source [] 0) = ''EXAMPLE''
   \<and> SessionID_src (ex_source [] 0) = ''ca128382-78d9-41d1-8927-1ecef15275be''"
  by (simp add: snapshotObjectInsertFunc_def incrementCounters_def bytesToRPSL_def
      snapshot_init_def GetBatch_def GetAll_def Add_def rpslInsertBatchSize_def
      ex_env_def mem_env_def ex_notification_def ex_ref_def ex_source_def ex_route_def
      mem_upsert_def mem_put_def mem_rpsl_def)

text \<open>
  Claim C5 does not hold of bytesToRPSL and incrementCounters: for a record whose RPSL
  text fails to parse the closure does return \<open>nil\<close>, but the success counter goes up
  by one, the failure counter stays as it is, and the value the parser returned with its
  error is appended to the buffer that is saved to the store.
\<close>

theorem snapshot_rpsl_failure_counted_as_success:
  "rpsl_ParseString (ex_env (ex_notification 3 [])) ''this is not rpsl''
     = (zero_Rpsl, Some ''not an rpsl object'')
   \<and> snapshotObjectInsertFunc (ex_env (ex_notification 3 [])) (ex_notification 3 [])
       (WObject ''this is not rpsl'') None
       (\<lparr>snapshotHeader = Some \<lparr>NrtmFileJSON_s = ex_file 3\<rparr>, objectList = [],
         successfulObjects = 1, failedObjects = 0, source_s = ex_source [] 0\<rparr>,
        \<lparr>mem_sources = [ex_source [] 0], mem_objects = []\<rparr>)
     = Inr (None,
            (\<lparr>snapshotHeader = Some \<lparr>NrtmFileJSON_s = ex_file 3\<rparr>, objectList = [zero_Rpsl],
              successfulObjects = 2, failedObjects = 0, source_s = ex_source [] 0\<rparr>,
             \<lparr>mem_sources = [ex_source [] 0], mem_objects = []\<rparr>))"
  by (simp add: snapshotObjectInsertFunc_def incrementCounters_def bytesToRPSL_def
      GetBatch_def Add_def rpslInsertBatchSize_def ex_env_def mem_env_def mem_rpsl_def)

subsection \<open>Update\<close>

text \<open>
  Claim C7.  For a stored source whose notification file has been downloaded, Update
  decides before it calls the analyzer: a session id other than the source's gives an
  error; a notification version below the source's version gives an error; with the
  same session and the same version Update returns success, and in all three cases the
  store is left as it was and no delta is applied.  Only in the remaining case does
  Update go on to syncDeltas.
\<close>

theorem Update_checks_before_analyzer:
  assumes "ds_getSourceByNameAndLabel env r sourceName label = Some source"
      and "fm_downloadNotificationFile env (NotificationURL source) = (notification, [])"
  shows "(SessionID notification \<noteq> SessionID_src source \<longrightarrow>
            Update env path sourceName label r
              = Inr (Some (errors_New ''server has a new mirror session''), r))
       \<and> (Version notification < Version_src source \<longrightarrow>
            (\<exists>e. Update env path sourceName label r = Inr (Some e, r)))
       \<and> (SessionID notification = SessionID_src source \<and>
            Version notification < Version_src source \<longrightarrow>
            Update env path sourceName label r
              = Inr (Some (errors_New ''server has old version''), r))
       \<and> (SessionID notification = SessionID_src source \<and>
            Version notification = Version_src source \<longrightarrow>
            Update env path sourceName label r = Inr (None, r))
       \<and> (SessionID notification = SessionID_src source \<and>
            Version_src source < Version notification \<longrightarrow>
            Update env path sourceName label r = syncDeltas env path notification source r)"
  using assms by (auto simp: Update_def)

theorem Update_checks_before_analyzer_witness:
  "Update (ex_env (ex_notification 5 [ex_ref 5])) ''/var/nrtm'' ''EXAMPLE'' ''''
      \<lparr>mem_sources = [ex_source [] 5], mem_objects = []\<rparr>
     = Inr (None, \<lparr>mem_sources = [ex_source [] 5], mem_objects = []\<rparr>)
   \<and> Update (ex_env (ex_notification 4 [ex_ref 4])) ''/var/nrtm'' ''EXAMPLE'' ''''
      \<lparr>mem_sources = [ex_source [] 5], mem_objects = []\<rparr>
     = Inr (Some (errors_New ''server has old version''),
            \<lparr>mem_sources = [ex_source [] 5], mem_objects = []\<rparr>)
   \<and> Update (ex_env ((ex_notification 6 [ex_ref 6])\<lparr>SessionID := ''new-session''\<rparr>))
        ''/var/nrtm'' ''EXAMPLE'' '''' \<lparr>mem_sources = [ex_source [] 5], mem_objects = []\<rparr>
     = Inr (Some (errors_New ''server has a new mirror session''),
            \<lparr>mem_sources = [ex_source [] 5], mem_objects = []\<rparr>)"
proof -
  let ?r = "\<lparr>mem_sources = [ex_source [] 5], mem_objects = []\<rparr>"
  have g: "\<And>n. ds_getSourceByNameAndLabel (ex_env n) ?r ''EXAMPLE'' '''' = Some (ex_source [] 5)"
    by (simp add: ex_env_def mem_env_def ex_source_def)
  have d: "\<And>n. fm_downloadNotificationFile (ex_env n) (NotificationURL (ex_source [] 5)) = (n, [])"
    by (simp add: ex_env_def mem_env_def)
  have a: "Update (ex_env (ex_notification 5 [ex_ref 5])) ''/var/nrtm'' ''EXAMPLE'' '''' ?r
             = Inr (None, ?r)"
    by (rule Update_checks_before_analyzer [OF g d, THEN conjunct2, THEN conjunct2,
          THEN conjunct2, THEN conjunct1, THEN mp])
       (simp add: ex_notification_def ex_source_def)
  have b: "Update (ex_env (ex_notification 4 [ex_ref 4])) ''/var/nrtm'' ''EXAMPLE'' '''' ?r
             = Inr (Some (errors_New ''server has old version''), ?r)"
    by (rule Update_checks_before_analyzer [OF g d, THEN conjunct2, THEN conjunct2,
          THEN conjunct1, THEN mp])
       (simp add: ex_notification_def ex_source_def)
  have c: "Update (ex_env ((ex_notification 6 [ex_ref 6])\<lparr>SessionID := ''new-session''\<rparr>))
             ''/var/nrtm'' ''EXAMPLE'' '''' ?r
             = Inr (Some (errors_New ''server has a new mirror session''), ?r)"
    by (rule Update_checks_before_analyzer [OF g d, THEN conjunct1, THEN mp])
       (simp add: ex_notification_def ex_source_def)
  from a b c show ?thesis by simp
qed

subsection \<open>ReplaceLabel\<close>

text \<open>
  Claim C9, as stated, fails: when a source with the new label exists and no source with
  the old label does, ReplaceLabel fails with another error than ErrSourceAlreadyExists.
\<close>

theorem ReplaceLabel_missing_source_counterexample:
  "ReplaceLabel (ex_env (ex_notification 5 [ex_ref 5])) ''EXAMPLE'' ''a'' ''b''
      \<lparr>mem_sources = [ex_source ''b'' 5], mem_objects = []\<rparr>
     = ((None, Some (errors_New ''cannot find source with given name and label'')),
        \<lparr>mem_sources = [ex_source ''b'' 5], mem_objects = []\<rparr>)
   \<and> ds_getSourceByNameAndLabel (ex_env (ex_notification 5 [ex_ref 5]))
        \<lparr>mem_sources = [ex_source ''b'' 5], mem_objects = []\<rparr> ''EXAMPLE'' ''b''
     = Some (ex_source ''b'' 5)"
  by (simp add: ReplaceLabel_def ex_env_def mem_env_def ex_source_def)

text \<open>
  Claim C9, amended.  ReplaceLabel fails with ErrSourceAlreadyExists if and only if a
  source with the name and the old label exists and a source with the name and the new
  label exists; when no source has the old label it fails with the error ``cannot find
  source with given name and label'', and in both cases the store is unchanged.  When
  it succeeds, the one write to the store is the update, in a transaction, of the source
  found under the old label with its label replaced; when that update fails, its error
  is returned and the store is unchanged.
\<close>

theorem ReplaceLabel_cases:
  "(snd (fst (ReplaceLabel env src fromLabel toLabel r)) = Some ErrSourceAlreadyExists \<longleftrightarrow>
      ds_getSourceByNameAndLabel env r src fromLabel \<noteq> None \<and>
      ds_getSourceByNameAndLabel env r src toLabel \<noteq> None)
   \<and> (ds_getSourceByNameAndLabel env r src fromLabel = None \<longrightarrow>
        ReplaceLabel env src fromLabel toLabel r
          = ((None, Some (errors_New ''cannot find source with given name and label'')), r))
   \<and> (ds_getSourceByNameAndLabel env r src fromLabel \<noteq> None \<and>
        ds_getSourceByNameAndLabel env r src toLabel \<noteq> None \<longrightarrow>
        ReplaceLabel env src fromLabel toLabel r = ((None, Some ErrSourceAlreadyExists), r))
   \<and> (snd (fst (ReplaceLabel env src fromLabel toLabel r)) = None \<longrightarrow>
        (\<exists>target r'. ds_getSourceByNameAndLabel env r src fromLabel = Some target \<and>
           db_Update env (target\<lparr>Label := toLabel\<rparr>) r = (None, r') \<and>
           ReplaceLabel env src fromLabel toLabel r = ((Some (target\<lparr>Label := toLabel\<rparr>), None), r')))
   \<and> (ds_getSourceByNameAndLabel env r src fromLabel = Some target \<and>
        ds_getSourceByNameAndLabel env r src toLabel = None \<and>
        db_Update env (target\<lparr>Label := toLabel\<rparr>) r = (None, r') \<longrightarrow>
        ReplaceLabel env src fromLabel toLabel r = ((Some (target\<lparr>Label := toLabel\<rparr>), None), r'))
   \<and> (ds_getSourceByNameAndLabel env r src fromLabel = Some target \<and>
        ds_getSourceByNameAndLabel env r src toLabel = None \<and>
        db_Update env (target\<lparr>Label := toLabel\<rparr>) r = (Some m, r') \<longrightarrow>
        ReplaceLabel env src fromLabel toLabel r
          = ((Some (target\<lparr>Label := toLabel\<rparr>), Some (ErrRepo m)), r))"
proof (cases "ds_getSourceByNameAndLabel env r src fromLabel")
  case None
  then show ?thesis by (simp add: ReplaceLabel_def)
next
  case (Some t)
  show ?thesis
  proof (cases "ds_getSourceByNameAndLabel env r src toLabel")
    case (Some d)
    with \<open>ds_getSourceByNameAndLabel env r src fromLabel = Some t\<close> show ?thesis
      by (simp add: ReplaceLabel_def)
  next
    case None
    obtain res r1 where u: "db_Update env (t\<lparr>Label := toLabel\<rparr>) r = (res, r1)"
      by (cases "db_Update env (t\<lparr>Label := toLabel\<rparr>) r")
    show ?thesis
    proof (cases res)
      case None
      with u \<open>ds_getSourceByNameAndLabel env r src fromLabel = Some t\<close>
        \<open>ds_getSourceByNameAndLabel env r src toLabel = None\<close>
      show ?thesis by (simp add: ReplaceLabel_def WithTransaction_def Let_def)
    next
      case (Some x)
      with u \<open>ds_getSourceByNameAndLabel env r src fromLabel = Some t\<close>
        \<open>ds_getSourceByNameAndLabel env r src toLabel = None\<close>
      show ?thesis by (simp add: ReplaceLabel_def WithTransaction_def Let_def)
    qed
  qed
qed

theorem ReplaceLabel_cases_witness:
  "ReplaceLabel (ex_env (ex_notification 5 [ex_ref 5])) ''EXAMPLE'' ''a'' ''b''
      \<lparr>mem_sources = [ex_source ''a'' 5, (ex_source ''b'' 5)\<lparr>ID := 2\<rparr>], mem_objects = []\<rparr>
     = ((None, Some ErrSourceAlreadyExists),
        \<lparr>mem_sources = [ex_source ''a'' 5, (ex_source ''b'' 5)\<lparr>ID := 2\<rparr>], mem_objects = []\<rparr>)
   \<and> ReplaceLabel (ex_env (ex_notification 5 [ex_ref 5])) ''EXAMPLE'' ''a'' ''c''
      \<lparr>mem_sources = [ex_source ''a'' 5, (ex_source ''b'' 5)\<lparr>ID := 2\<rparr>], mem_objects = []\<rparr>
     = ((Some (ex_source ''c'' 5), None),
        \<lparr>mem_sources = [ex_source ''c'' 5, (ex_source ''b'' 5)\<lparr>ID := 2\<rparr>], mem_objects = []\<rparr>)
   \<and> ReplaceLabel (ex_env (ex_notification 5 [ex_ref 5])) ''EXAMPLE'' ''x'' ''b''
      \<lparr>mem_sources = [ex_source ''a'' 5, (ex_source ''b'' 5)\<lparr>ID := 2\<rparr>], mem_objects = []\<rparr>
     = ((None, Some (errors_New ''cannot find source with given name and label'')),
        \<lparr>mem_sources = [ex_source ''a'' 5, (ex_source ''b'' 5)\<lparr>ID := 2\<rparr>], mem_objects = []\<rparr>)"
proof -
  let ?env = "ex_env (ex_notification 5 [ex_ref 5])"
  let ?r = "\<lparr>mem_sources = [ex_source ''a'' 5, (ex_source ''b'' 5)\<lparr>ID := 2\<rparr>], mem_objects = []\<rparr>"
  have ga: "ds_getSourceByNameAndLabel ?env ?r ''EXAMPLE'' ''a'' = Some (ex_source ''a'' 5)"
    by (simp add: ex_env_def mem_env_def ex_source_def)
  have gb: "ds_getSourceByNameAndLabel ?env ?r ''EXAMPLE'' ''b'' = Some ((ex_source ''b'' 5)\<lparr>ID := 2\<rparr>)"
    by (simp add: ex_env_def mem_env_def ex_source_def)
  have gc: "ds_getSourceByNameAndLabel ?env ?r ''EXAMPLE'' ''c'' = None"
    by (simp add: ex_env_def mem_env_def ex_source_def)
  have gx: "ds_getSourceByNameAndLabel ?env ?r ''EXAMPLE'' ''x'' = None"
    by (simp add: ex_env_def mem_env_def ex_source_def)
  have up: "db_Update ?env ((ex_source ''a'' 5)\<lparr>Label := ''c''\<rparr>) ?r
              = (None, \<lparr>mem_sources = [ex_source ''c'' 5, (ex_source ''b'' 5)\<lparr>ID := 2\<rparr>],
                        mem_objects = []\<rparr>)"
    by (simp add: ex_env_def mem_env_def ex_source_def)
  have lc: "(ex_source ''a'' 5)\<lparr>Label := ''c''\<rparr> = ex_source ''c'' 5"
    by (simp add: ex_source_def)
  have a: "ReplaceLabel ?env ''EXAMPLE'' ''a'' ''b'' ?r = ((None, Some ErrSourceAlreadyExists), ?r)"
    by (rule ReplaceLabel_cases [THEN conjunct2, THEN conjunct2, THEN conjunct1, THEN mp])
       (simp add: ga gb)
  have b: "ReplaceLabel ?env ''EXAMPLE'' ''a'' ''c'' ?r
      = ((Some ((ex_source ''a'' 5)\<lparr>Label := ''c''\<rparr>), None),
         \<lparr>mem_sources = [ex_source ''c'' 5, (ex_source ''b'' 5)\<lparr>ID := 2\<rparr>], mem_objects = []\<rparr>)"
    by (rule ReplaceLabel_cases [THEN conjunct2, THEN conjunct2, THEN conjunct2, THEN conjunct2,
          THEN conjunct1, THEN mp])
       (simp add: ga gc up)
  have c: "ReplaceLabel ?env ''EXAMPLE'' ''x'' ''b'' ?r
      = ((None, Some (errors_New ''cannot find source with given name and label'')), ?r)"
    by (rule ReplaceLabel_cases [THEN conjunct2, THEN conjunct1, THEN mp]) (simp add: gx)
  from a b c lc show ?thesis by simp
qed

end
